theory Spec2Isabelle
  imports Main
begin

section \<open>The event dispatcher of src/events.js\<close>

text \<open>
  The module receives one Slack event at a time (\<open>handleEvent\<close>), validates it, and routes it
  by the camel-cased name of its type to \<open>handlers.message\<close> or \<open>handlers.appMention\<close>.
  Everything the module does to the outside goes through its collaborators: the console, the
  score store (\<open>points\<close>), the transport (\<open>slack\<close>) and the templating (\<open>messages\<close>).
  The embedding threads a \<open>world\<close> through every function: the collaborator calls made while
  the dispatch runs, in order, and the promises created, in order of creation.
\<close>

subsection \<open>Values\<close>

text \<open>
  A JavaScript string is a \<open>string\<close>; a value that may be \<open>undefined\<close> is a
  \<open>string option\<close> with \<open>None\<close> for \<open>undefined\<close>.
  \<open>falsy\<close> is the test \<open>! v\<close> on such a value: \<open>undefined\<close> and the empty string.
\<close>

definition falsy :: "string option \<Rightarrow> bool" where
  "falsy v = (case v of None \<Rightarrow> True | Some s \<Rightarrow> s = [])"

text \<open>\<open>Array.prototype.indexOf\<close>: the first index holding the value, or \<open>-1\<close>.\<close>

fun indexOf :: "'a list \<Rightarrow> 'a \<Rightarrow> int" where
  "indexOf [] x = - 1"
| "indexOf (y # ys) x =
     (if y = x then 0 else (let r = indexOf ys x in if r < 0 then - 1 else r + 1))"

text \<open>
  \<open>String.prototype.trim\<close> removes white space at both ends, so \<open>! text.trim()\<close> holds
  exactly when every character is white space. The characters are code units below 256; the
  white space among them is TAB, LF, VT, FF, CR, SPACE and NBSP.
\<close>

definition isWhiteSpace :: "char \<Rightarrow> bool" where
  "isWhiteSpace c = (of_char c \<in> {9, 10, 11, 12, 13, 32, 160 :: nat})"

definition trimIsEmpty :: "string \<Rightarrow> bool" where
  "trimIsEmpty s = list_all isWhiteSpace s"

record event =
  ev_type :: "string option"
  ev_subtype :: "string option"
  ev_text :: "string option"
  ev_user :: string
  ev_channel :: string

subsection \<open>Collaborators and the world\<close>

text \<open>
  The texts built by the \<open>messages\<close> module (not part of this file) stay symbolic; the texts
  built in this file are spelled out.
\<close>

datatype message =
    SelfMessage string
    \<comment> \<open>\<open>messages.getRandomMessage(operations.operations.SELF, user)\<close>\<close>
  | OperationMessage string string int
    \<comment> \<open>\<open>messages.getRandomMessage(operations.getOperationName(operation), item, score)\<close>\<close>
  | IndividualScoreMessage string int
    \<comment> \<open>\<open>messages.getMessageForIndividualScore(item, score)\<close>\<close>
  | HelpMessage "string option"
    \<comment> \<open>the help text of \<open>sendHelp\<close>, built around \<open>helpers.extractUserID(event.text)\<close>\<close>
  | Text string

datatype call =
    ConsoleLog string
  | ConsoleWarn string
  | UpdateScore string string
    \<comment> \<open>\<open>points.updateScore(item, operation)\<close>\<close>
  | RetrieveIndividualScore string
    \<comment> \<open>\<open>points.retrieveIndividualScore(item)\<close>\<close>
  | SendMessage message string
    \<comment> \<open>\<open>slack.sendMessage(message, channel)\<close>\<close>
  | LeaderboardHandler

text \<open>
  A promise created during the dispatch. \<open>SendTask\<close> is the promise \<open>slack.sendMessage\<close>
  returns. \<open>PlusMinusTask\<close> and \<open>RetrieveScoreTask\<close> are the promises of the two
  \<open>async\<close> handlers, suspended at their \<open>await\<close> on the score store.
\<close>

datatype task =
    SendTask message string
  | PlusMinusTask string string string
  | RetrieveScoreTask string string
  | LeaderboardTask string

record world =
  calls :: "call list"
  tasks :: "task list"
  randomKey :: nat
  \<comment> \<open>the value of \<open>Math.floor(Math.random() * 5)\<close> for this event (every pool has five texts)\<close>

definition world0 :: "nat \<Rightarrow> world" where
  "world0 k = \<lparr>calls = [], tasks = [], randomKey = k\<rparr>"

definition do_call :: "call \<Rightarrow> world \<Rightarrow> world" where
  "do_call c w = w\<lparr>calls := calls w @ [c]\<rparr>"

text \<open>A new promise gets the next free index of the table; the index is the reference to it.\<close>

definition new_task :: "task \<Rightarrow> world \<Rightarrow> nat \<times> world" where
  "new_task t w = (length (tasks w), w\<lparr>tasks := tasks w @ [t]\<rparr>)"

definition slack_sendMessage :: "message \<Rightarrow> string \<Rightarrow> world \<Rightarrow> nat \<times> world" where
  "slack_sendMessage m c w = new_task (SendTask m c) (do_call (SendMessage m c) w)"

text \<open>
  The helpers module is not part of this file. Its functions are parameters of the model.
  \<open>extractEvents\<close> returns the tokens of a text or a falsy value (\<open>None\<close>);
  \<open>extractPlusMinusEventData\<close> returns an object whose \<open>item\<close> and \<open>operation\<close> may be
  \<open>undefined\<close>.
\<close>

record eventData =
  item :: "string option"
  operation :: "string option"

record helpers =
  extractEvents :: "string option \<Rightarrow> string list option"
  extractPlusMinusEventData :: "string \<Rightarrow> eventData"
  extractCommand :: "string option \<Rightarrow> string list \<Rightarrow> string option"
  extractUserID :: "string option \<Rightarrow> string option"

subsection \<open>Handlers of one operation\<close>

definition handleSelfPlus :: "string \<Rightarrow> string \<Rightarrow> world \<Rightarrow> nat \<times> world" where
  "handleSelfPlus user channel w =
     (let w1 = do_call (ConsoleLog (user @ '' tried to alter their own score.'')) w;
          message = SelfMessage user
      in slack_sendMessage message channel w1)"

text \<open>
  An \<open>async\<close> function runs up to its first \<open>await\<close> when it is called: the call of the score
  store is made during the dispatch, the rest (\<open>handlePlusMinus_resume\<close>) when the score arrives.
\<close>

definition handlePlusMinus :: "string \<Rightarrow> string \<Rightarrow> string \<Rightarrow> world \<Rightarrow> nat \<times> world" where
  "handlePlusMinus itm opr channel w =
     new_task (PlusMinusTask itm opr channel) (do_call (UpdateScore itm opr) w)"

definition handleRetrieveScore :: "string \<Rightarrow> string \<Rightarrow> world \<Rightarrow> nat \<times> world" where
  "handleRetrieveScore itm channel w =
     new_task (RetrieveScoreTask itm channel) (do_call (RetrieveIndividualScore itm) w)"

subsection \<open>handlers.message\<close>

datatype result =
    RFalse
  | RPromiseAll "nat list"
  | RPromise nat
  | RObject event
  | RString string
  | RThis
  | RUndefined
  | RThrow

record message_state =
  promises :: "nat list"
  alreadyBeenHandledItems :: "string option list"
  st_world :: world

text \<open>The body of the \<open>forEach\<close> callback, for one token.\<close>

definition message_eventItem :: "helpers \<Rightarrow> event \<Rightarrow> string \<Rightarrow> message_state \<Rightarrow> message_state" where
  "message_eventItem h ev eventItem st =
     (let d = extractPlusMinusEventData h eventItem;
          promise = (if falsy (item d) \<or> falsy (operation d)
                        \<or> 0 < indexOf (alreadyBeenHandledItems st) (item d)
                     then False else True);
          st1 = st\<lparr>alreadyBeenHandledItems := alreadyBeenHandledItems st @ [item d]\<rparr>
      in if promise then
           (case (item d, operation d) of
              (Some itm, Some opr) \<Rightarrow>
                (let w1 = (if itm = ev_user ev \<and> opr = ''+''
                           then snd (handleSelfPlus (ev_user ev) (ev_channel ev) (st_world st1))
                           else st_world st1);
                     w2 = (if opr = ''=''
                           then snd (handleRetrieveScore itm (ev_channel ev) w1)
                           else w1);
                     pw = handlePlusMinus itm opr (ev_channel ev) w2
                 in st1\<lparr>promises := promises st1 @ [fst pw], st_world := snd pw\<rparr>)
            | _ \<Rightarrow> st1)
         else st1)"

definition handlers_message :: "helpers \<Rightarrow> event \<Rightarrow> world \<Rightarrow> result \<times> world" where
  "handlers_message h ev w =
     (let st0 = \<lparr>promises = [], alreadyBeenHandledItems = [], st_world = w\<rparr>;
          st = (case extractEvents h (ev_text ev) of
                  None \<Rightarrow> st0
                | Some eventItems \<Rightarrow> foldl (\<lambda>s e. message_eventItem h ev e s) st0 eventItems)
      in if 0 < length (promises st)
         then (RPromiseAll (promises st), st_world st)
         else (RFalse, st_world st))"

subsection \<open>Handlers of the mention commands\<close>

definition thankyouMessages :: "string list" where
  "thankyouMessages =
     [''Don't mention it!'',
      ''You're welcome.'',
      ''Pleasure!'',
      ''No thank YOU!'',
      ''++ for taking the time to say thanks!'' @ [CHR 0x0A] @ ''...'' @
      ''just kidding, I can't `++` you. But it's the thought that counts, right??'']"

definition sayThankyou :: "event \<Rightarrow> world \<Rightarrow> nat \<times> world" where
  "sayThankyou ev w =
     (let message = ''<@'' @ ev_user ev @ ''> '' @ thankyouMessages ! (randomKey w mod 5)
      in slack_sendMessage (Text message) (ev_channel ev) w)"

definition plusPlusMessages :: "string list" where
  "plusPlusMessages =
     [''Woo, internet bot getting internet points!'',
      ''Awh shucks!'',
      ''My oh my!'',
      ''Who, me!?'',
      ''Should I count this as a form of bribery?'']"

definition appMentionPlusPlus :: "event \<Rightarrow> world \<Rightarrow> nat \<times> world" where
  "appMentionPlusPlus ev w =
     (let message = plusPlusMessages ! (randomKey w mod 5)
      in slack_sendMessage (Text message) (ev_channel ev) w)"

definition minusMinusMessages :: "event \<Rightarrow> string list" where
  "minusMinusMessages ev =
     [''Remember, I control your internet points.'',
      ''Rude.'',
      ''_Planning the details of the robot revolution..._'',
      ''Goodbye, '' @ ''<@'' @ ev_user ev @ ''>.'',
      ''...What do you think you're doing?...'']"

definition appMentionMinusMinus :: "event \<Rightarrow> world \<Rightarrow> nat \<times> world" where
  "appMentionMinusMinus ev w =
     (let message = minusMinusMessages ev ! (randomKey w mod 5)
      in slack_sendMessage (Text message) (ev_channel ev) w)"

definition sendHelp :: "helpers \<Rightarrow> event \<Rightarrow> world \<Rightarrow> nat \<times> world" where
  "sendHelp h ev w =
     (let botUserID = extractUserID h (ev_text ev);
          message = HelpMessage botUserID
      in slack_sendMessage message (ev_channel ev) w)"

text \<open>
  Modelled from the spec: \<open>leaderboard.handler\<close>, which lives in the leaderboard module and is
  not part of this file. The spec says of it: it sends exactly one reply message, built from
  the store's current ordered listing.
\<close>

definition leaderboard_handler :: "event \<Rightarrow> world \<Rightarrow> nat \<times> world" where
  "leaderboard_handler ev w = new_task (LeaderboardTask (ev_channel ev)) (do_call LeaderboardHandler w)"

subsection \<open>Property lookup on the two handler tables\<close>

text \<open>
  Both tables are object literals, so \<open>table[name]\<close> finds the table's own keys first and then
  the properties every object inherits from \<open>Object.prototype\<close>. The inherited functions,
  called with \<open>(event, request)\<close> on a table: \<open>constructor\<close> returns its argument, the three
  tests answer \<open>false\<close> for the key \<open>[object Object]\<close>, the conversions return a string or
  the table, the two legacy definers throw a \<open>TypeError\<close> (the request is not callable) and
  the two legacy lookups return \<open>undefined\<close>. \<open>None\<close>: the name is no inherited function.
\<close>

definition objectPrototype_call :: "string \<Rightarrow> event \<Rightarrow> result option" where
  "objectPrototype_call name ev =
     (if name = ''constructor'' then Some (RObject ev)
      else if name = ''hasOwnProperty'' then Some RFalse
      else if name = ''isPrototypeOf'' then Some RFalse
      else if name = ''propertyIsEnumerable'' then Some RFalse
      else if name = ''toString'' then Some (RString ''[object Object]'')
      else if name = ''toLocaleString'' then Some (RString ''[object Object]'')
      else if name = ''valueOf'' then Some RThis
      else if name = ''__defineGetter__'' then Some RThrow
      else if name = ''__defineSetter__'' then Some RThrow
      else if name = ''__lookupGetter__'' then Some RUndefined
      else if name = ''__lookupSetter__'' then Some RUndefined
      else None)"

definition promised :: "nat \<times> world \<Rightarrow> result \<times> world" where
  "promised pw = (RPromise (fst pw), snd pw)"

text \<open>The object literal \<open>appCommandHandlers\<close>, in the order of its keys.\<close>

definition appCommandHandlers :: "helpers \<Rightarrow> (string \<times> (event \<Rightarrow> world \<Rightarrow> nat \<times> world)) list" where
  "appCommandHandlers h =
     [(''leaderboard'', leaderboard_handler),
      (''help'', sendHelp h),
      (''thx'', sayThankyou),
      (''thanks'', sayThankyou),
      (''thankyou'', sayThankyou),
      (''++'', appMentionPlusPlus),
      (''--'', appMentionMinusMinus)]"

text \<open>\<open>appCommandHandlers[appCommand]( event, request )\<close>; calling \<open>undefined\<close> throws.\<close>

definition appCommandHandlers_call :: "helpers \<Rightarrow> string \<Rightarrow> event \<Rightarrow> world \<Rightarrow> result \<times> world" where
  "appCommandHandlers_call h appCommand ev w =
     (case map_of (appCommandHandlers h) appCommand of
        Some handler \<Rightarrow> promised (handler ev w)
      | None \<Rightarrow>
         (case objectPrototype_call appCommand ev of
            Some r \<Rightarrow> (r, w)
          | None \<Rightarrow> (RThrow, w)))"

definition defaultMessage :: string where
  "defaultMessage =
     ''Sorry, I'm not quite sure what you're asking me. I'm not very smart - there's only a '' @
     ''few things I've been trained to do. Send me `help` for more details.''"

definition handlers_appMention :: "helpers \<Rightarrow> event \<Rightarrow> world \<Rightarrow> result \<times> world" where
  "handlers_appMention h ev w =
     (let validCommands = map fst (appCommandHandlers h);
          appCommand = extractCommand h (ev_text ev) validCommands
      in if falsy appCommand
         then promised (slack_sendMessage (Text defaultMessage) (ev_channel ev) w)
         else (case appCommand of
                 Some c \<Rightarrow> appCommandHandlers_call h c ev w
               | None \<Rightarrow> promised (slack_sendMessage (Text defaultMessage) (ev_channel ev) w)))"

subsection \<open>handleEvent\<close>

text \<open>
  \<open>camelCase\<close> is the package lodash.camelcase; it is a parameter of the model.
\<close>

definition handleEvent :: "(string \<Rightarrow> string) \<Rightarrow> helpers \<Rightarrow> event \<Rightarrow> world \<Rightarrow> result \<times> world" where
  "handleEvent camelCase h ev w =
     (case ev_type ev of
        None \<Rightarrow> (RFalse, do_call (ConsoleWarn ''Event data missing'') w)
      | Some ty \<Rightarrow>
         (case ev_subtype ev of
            Some sub \<Rightarrow> (RFalse, do_call (ConsoleWarn (''Unsupported event subtype: '' @ sub)) w)
          | None \<Rightarrow>
             if (case ev_text ev of None \<Rightarrow> True | Some t \<Rightarrow> trimIsEmpty t)
             then (RFalse, do_call (ConsoleWarn ''Event text missing'') w)
             else (let eventName = camelCase ty
                   in if eventName = ''message'' then handlers_message h ev w
                      else if eventName = ''appMention'' then handlers_appMention h ev w
                      else (case objectPrototype_call eventName ev of
                              Some r \<Rightarrow> (r, w)
                            | None \<Rightarrow>
                               (RFalse, do_call (ConsoleWarn (''Invalid event received: '' @ ty)) w)))))"

subsection \<open>How the promises settle\<close>

text \<open>
  The collaborators answer later. \<open>score_answer a i\<close> is how the score store settles the call
  made by promise \<open>i\<close> (\<open>Inl\<close>: it rejects), \<open>send_answer a i\<close> how the transport settles the
  send of promise \<open>i\<close>. A promise makes at most one call of each kind.
\<close>

datatype outcome = Fulfilled | Rejected string

record answers =
  score_answer :: "nat \<Rightarrow> string + int"
  send_answer :: "nat \<Rightarrow> outcome"

text \<open>
  The rest of \<open>handlePlusMinus\<close> and of \<open>handleRetrieveScore\<close> after the \<open>await\<close>: a rejected
  score rejects the handler's promise and nothing is sent; otherwise the message is sent.
\<close>

definition handlePlusMinus_resume :: "string \<Rightarrow> string \<Rightarrow> string \<Rightarrow> string + int \<Rightarrow> string + call" where
  "handlePlusMinus_resume itm opr channel r =
     (case r of
        Inl e \<Rightarrow> Inl e
      | Inr score \<Rightarrow> Inr (SendMessage (OperationMessage opr itm score) channel))"

definition handleRetrieveScore_resume :: "string \<Rightarrow> string \<Rightarrow> string + int \<Rightarrow> string + call" where
  "handleRetrieveScore_resume itm channel r =
     (case r of
        Inl e \<Rightarrow> Inl e
      | Inr score \<Rightarrow> Inr (SendMessage (IndividualScoreMessage itm score) channel))"

fun task_outcome :: "answers \<Rightarrow> nat \<Rightarrow> task \<Rightarrow> outcome" where
  "task_outcome a i (SendTask m c) = send_answer a i"
| "task_outcome a i (PlusMinusTask itm opr c) =
     (case handlePlusMinus_resume itm opr c (score_answer a i) of
        Inl e \<Rightarrow> Rejected e
      | Inr s \<Rightarrow> send_answer a i)"
| "task_outcome a i (RetrieveScoreTask itm c) =
     (case handleRetrieveScore_resume itm c (score_answer a i) of
        Inl e \<Rightarrow> Rejected e
      | Inr s \<Rightarrow> send_answer a i)"
| "task_outcome a i (LeaderboardTask c) = send_answer a i"

text \<open>The sends made after the dispatch has returned, by promise \<open>i\<close>.\<close>

fun task_late_calls :: "answers \<Rightarrow> nat \<Rightarrow> task \<Rightarrow> call list" where
  "task_late_calls a i (SendTask m c) = []"
| "task_late_calls a i (PlusMinusTask itm opr c) =
     (case handlePlusMinus_resume itm opr c (score_answer a i) of
        Inl e \<Rightarrow> []
      | Inr s \<Rightarrow> [s])"
| "task_late_calls a i (RetrieveScoreTask itm c) =
     (case handleRetrieveScore_resume itm c (score_answer a i) of
        Inl e \<Rightarrow> []
      | Inr s \<Rightarrow> [s])"
| "task_late_calls a i (LeaderboardTask c) = []"

definition promise_fulfilled :: "answers \<Rightarrow> world \<Rightarrow> nat \<Rightarrow> bool" where
  "promise_fulfilled a w i = (i < length (tasks w) \<and> task_outcome a i (tasks w ! i) = Fulfilled)"

text \<open>\<open>Promise.all\<close> fulfils when every member fulfils and rejects as soon as one rejects.\<close>

definition promiseAll_fulfilled :: "answers \<Rightarrow> world \<Rightarrow> nat list \<Rightarrow> bool" where
  "promiseAll_fulfilled a w ps = list_all (promise_fulfilled a w) ps"

text \<open>
  What the caller of the dispatch can observe of a failure: the returned value is a promise
  that rejects. A value that is no promise reports nothing.
\<close>

fun result_rejected :: "answers \<Rightarrow> world \<Rightarrow> result \<Rightarrow> bool" where
  "result_rejected a w (RPromiseAll ps) = (\<not> promiseAll_fulfilled a w ps)"
| "result_rejected a w (RPromise p) = (\<not> promise_fulfilled a w p)"
| "result_rejected a w r = False"

subsection \<open>Observations on a world\<close>

definition isUpdateScore :: "call \<Rightarrow> bool" where
  "isUpdateScore c = (case c of UpdateScore i oper \<Rightarrow> True | _ \<Rightarrow> False)"

text \<open>\<open>handleSelfPlus\<close> is the only function of the module that writes to \<open>console.log\<close>.\<close>

definition isSelfPlusLog :: "call \<Rightarrow> bool" where
  "isSelfPlusLog c = (case c of ConsoleLog s \<Rightarrow> True | _ \<Rightarrow> False)"

definition selfPlus_invocations :: "world \<Rightarrow> nat" where
  "selfPlus_invocations w = length (filter isSelfPlusLog (calls w))"

definition updateScore_calls :: "world \<Rightarrow> call list" where
  "updateScore_calls w = filter isUpdateScore (calls w)"

fun task_channel :: "task \<Rightarrow> string" where
  "task_channel (SendTask m c) = c"
| "task_channel (PlusMinusTask itm opr c) = c"
| "task_channel (RetrieveScoreTask itm c) = c"
| "task_channel (LeaderboardTask c) = c"

text \<open>A text yields no valid token: no token list, or every token lacks its item or its operation.\<close>

definition no_valid_token :: "helpers \<Rightarrow> string option \<Rightarrow> bool" where
  "no_valid_token h t =
     (case extractEvents h t of
        None \<Rightarrow> True
      | Some toks \<Rightarrow>
          list_all (\<lambda>tok. falsy (item (extractPlusMinusEventData h tok)) \<or>
                          falsy (operation (extractPlusMinusEventData h tok))) toks)"

definition same_answers_at :: "answers \<Rightarrow> answers \<Rightarrow> nat \<Rightarrow> bool" where
  "same_answers_at a b i = (score_answer a i = score_answer b i \<and> send_answer a i = send_answer b i)"

subsection \<open>Collaborators for the examples\<close>

text \<open>
  To run the model on an event, the parameters need values. \<open>example_helpers\<close> gives the
  helpers at the texts of the examples: the tokens of each text, the item and operation of
  each token, and the command of each mention. Every other text has no token and no command.
  \<open>example_camelCase\<close> gives lodash.camelcase at the type names of the examples; a name of
  lower-case letters only is its own camel case, and the function is used at no other name.
\<close>

definition example_texts :: "(string \<times> string list) list" where
  "example_texts =
     [(''<@U>++'', [''<@U>++'']),
      (''<@U>--'', [''<@U>--'']),
      (''thing='', [''thing='']),
      (''thing++ thing--'', [''thing++'', ''thing--'']),
      (''<@U1>++ <@U2>--'', [''<@U1>++'', ''<@U2>--''])]"

definition example_tokens :: "(string \<times> eventData) list" where
  "example_tokens =
     [(''<@U>++'', \<lparr>item = Some ''U'', operation = Some ''+''\<rparr>),
      (''<@U>--'', \<lparr>item = Some ''U'', operation = Some ''-''\<rparr>),
      (''thing='', \<lparr>item = Some ''thing'', operation = Some ''=''\<rparr>),
      (''thing++'', \<lparr>item = Some ''thing'', operation = Some ''+''\<rparr>),
      (''thing--'', \<lparr>item = Some ''thing'', operation = Some ''-''\<rparr>),
      (''<@U1>++'', \<lparr>item = Some ''U1'', operation = Some ''+''\<rparr>),
      (''<@U2>--'', \<lparr>item = Some ''U2'', operation = Some ''-''\<rparr>)]"

definition example_commands :: "(string \<times> string) list" where
  "example_commands =
     [(''<@BOT> leaderboard'', ''leaderboard''),
      (''<@BOT> help'', ''help''),
      (''<@BOT> thanks'', ''thanks'')]"

definition example_helpers :: helpers where
  "example_helpers =
     \<lparr>extractEvents = (\<lambda>t. case t of None \<Rightarrow> None | Some s \<Rightarrow> map_of example_texts s),
      extractPlusMinusEventData =
        (\<lambda>tok. case map_of example_tokens tok of
                  Some d \<Rightarrow> d
                | None \<Rightarrow> \<lparr>item = None, operation = None\<rparr>),
      extractCommand =
        (\<lambda>t cs. case t of None \<Rightarrow> None | Some s \<Rightarrow> map_of example_commands s),
      extractUserID = (\<lambda>t. Some ''BOT'')\<rparr>"

definition example_camelCase :: "string \<Rightarrow> string" where
  "example_camelCase s =
     (case map_of [(''app_mention'', ''appMention''), (''App_Mention'', ''appMention''),
                   (''MESSAGE'', ''message''), (''to_string'', ''toString'')] s of
        Some r \<Rightarrow> r
      | None \<Rightarrow> s)"

definition example_event :: "string \<Rightarrow> string \<Rightarrow> string \<Rightarrow> event" where
  "example_event ty t u =
     \<lparr>ev_type = Some ty, ev_subtype = None, ev_text = Some t, ev_user = u, ev_channel = ''C1''\<rparr>"

section \<open>Facts about the dispatcher\<close>

lemmas dispatch_defs =
  handleEvent_def handlers_message_def handlers_appMention_def message_eventItem_def
  appCommandHandlers_call_def appCommandHandlers_def objectPrototype_call_def promised_def
  falsy_def trimIsEmpty_def isWhiteSpace_def Let_def

lemmas handler_defs =
  handleSelfPlus_def handlePlusMinus_def handleRetrieveScore_def slack_sendMessage_def
  leaderboard_handler_def sendHelp_def sayThankyou_def appMentionPlusPlus_def
  appMentionMinusMinus_def new_task_def do_call_def

lemmas example_defs =
  example_helpers_def example_texts_def example_tokens_def example_commands_def
  example_camelCase_def example_event_def world0_def

subsection \<open>indexOf\<close>

lemma indexOf_ge: "- 1 \<le> indexOf xs x"
  by (induction xs) (auto simp: Let_def)

lemma indexOf_neg_iff: "indexOf xs x < 0 \<longleftrightarrow> x \<notin> set xs"
proof (induction xs)
  case Nil
  show ?case by simp
next
  case (Cons y ys)
  have "- 1 \<le> indexOf ys x" by (rule indexOf_ge)
  with Cons show ?case by (auto simp: Let_def)
qed

text \<open>
  The duplicate test \<open>indexOf( item ) > 0\<close> sees an earlier occurrence only behind the first
  position of the list.
\<close>

lemma indexOf_pos_iff:
  "0 < indexOf xs x \<longleftrightarrow> (\<exists>y ys. xs = y # ys \<and> y \<noteq> x \<and> x \<in> set ys)"
proof (cases xs)
  case Nil
  then show ?thesis by simp
next
  case (Cons y ys)
  have "- 1 \<le> indexOf ys x" by (rule indexOf_ge)
  moreover have "indexOf ys x < 0 \<longleftrightarrow> x \<notin> set ys" by (rule indexOf_neg_iff)
  ultimately show ?thesis using Cons by (auto simp: Let_def)
qed

subsection \<open>One token\<close>

lemma message_eventItem_dropped:
  assumes "falsy (item (extractPlusMinusEventData h tok)) \<or>
           falsy (operation (extractPlusMinusEventData h tok)) \<or>
           0 < indexOf (alreadyBeenHandledItems st) (item (extractPlusMinusEventData h tok))"
  shows "message_eventItem h ev tok st =
           st\<lparr>alreadyBeenHandledItems :=
                 alreadyBeenHandledItems st @ [item (extractPlusMinusEventData h tok)]\<rparr>"
  using assms by (auto simp: message_eventItem_def Let_def)

lemma message_eventItem_keeps:
  assumes "falsy (item (extractPlusMinusEventData h tok)) \<or>
           falsy (operation (extractPlusMinusEventData h tok))"
  shows "promises (message_eventItem h ev tok st) = promises st \<and>
         st_world (message_eventItem h ev tok st) = st_world st"
  using assms by (auto simp: message_eventItem_def Let_def)

text \<open>A repeated target is dropped when its earlier occurrence is behind the first position.\<close>

lemma message_eventItem_duplicate_dropped:
  assumes "alreadyBeenHandledItems st = y # ys"
    and "y \<noteq> item (extractPlusMinusEventData h tok)"
    and "item (extractPlusMinusEventData h tok) \<in> set ys"
  shows "promises (message_eventItem h ev tok st) = promises st \<and>
         st_world (message_eventItem h ev tok st) = st_world st"
proof -
  have "0 < indexOf (y # ys) (item (extractPlusMinusEventData h tok))"
    unfolding indexOf_pos_iff using assms(2) assms(3) by blast
  with assms(1)
  have "0 < indexOf (alreadyBeenHandledItems st) (item (extractPlusMinusEventData h tok))"
    by simp
  then show ?thesis by (simp add: message_eventItem_dropped)
qed

text \<open>
  A token that is kept: the self-plus handler and the retrieval handler run when their tests
  hold, and \<open>handlePlusMinus\<close> runs in every case; only its promise is pushed.
\<close>

lemma message_eventItem_kept:
  assumes "extractPlusMinusEventData h tok = \<lparr>item = Some itm, operation = Some opr\<rparr>"
    and "itm \<noteq> []" and "opr \<noteq> []"
    and "\<not> 0 < indexOf (alreadyBeenHandledItems st) (Some itm)"
  shows "message_eventItem h ev tok st =
           (let w1 = (if itm = ev_user ev \<and> opr = ''+''
                      then snd (handleSelfPlus (ev_user ev) (ev_channel ev) (st_world st))
                      else st_world st);
                w2 = (if opr = ''=''
                      then snd (handleRetrieveScore itm (ev_channel ev) w1)
                      else w1);
                pw = handlePlusMinus itm opr (ev_channel ev) w2
            in st\<lparr>promises := promises st @ [fst pw],
                  alreadyBeenHandledItems := alreadyBeenHandledItems st @ [Some itm],
                  st_world := snd pw\<rparr>)"
  using assms by (simp add: message_eventItem_def Let_def falsy_def)

lemma handlers_message_single_token:
  assumes "extractEvents h (ev_text ev) = Some [tok]"
    and "extractPlusMinusEventData h tok = \<lparr>item = Some itm, operation = Some opr\<rparr>"
    and "itm \<noteq> []" and "opr \<noteq> []"
  shows "handlers_message h ev w =
           (let w1 = (if itm = ev_user ev \<and> opr = ''+''
                      then snd (handleSelfPlus (ev_user ev) (ev_channel ev) w)
                      else w);
                w2 = (if opr = ''=''
                      then snd (handleRetrieveScore itm (ev_channel ev) w1)
                      else w1);
                pw = handlePlusMinus itm opr (ev_channel ev) w2
            in (RPromiseAll [fst pw], snd pw))"
proof -
  let ?st0 = "\<lparr>promises = [], alreadyBeenHandledItems = [], st_world = w\<rparr>"
  have "\<not> 0 < indexOf (alreadyBeenHandledItems ?st0) (Some itm)" by simp
  from message_eventItem_kept [OF assms(2) assms(3) assms(4) this, of ev]
  show ?thesis using assms(1) by (simp add: handlers_message_def Let_def)
qed

subsection \<open>Texts without a valid token\<close>

lemma foldl_no_valid_token:
  assumes "list_all (\<lambda>tok. falsy (item (extractPlusMinusEventData h tok)) \<or>
                            falsy (operation (extractPlusMinusEventData h tok))) toks"
  shows "promises (foldl (\<lambda>s e. message_eventItem h ev e s) st toks) = promises st \<and>
         st_world (foldl (\<lambda>s e. message_eventItem h ev e s) st toks) = st_world st"
  using assms
proof (induction toks arbitrary: st)
  case Nil
  show ?case by simp
next
  case (Cons tok toks)
  from Cons.prems have here: "falsy (item (extractPlusMinusEventData h tok)) \<or>
      falsy (operation (extractPlusMinusEventData h tok))"
    and rest: "list_all (\<lambda>tok. falsy (item (extractPlusMinusEventData h tok)) \<or>
                            falsy (operation (extractPlusMinusEventData h tok))) toks"
    by simp_all
  from Cons.IH [OF rest, of "message_eventItem h ev tok st"]
    message_eventItem_keeps [OF here, of ev st]
  show ?case by simp
qed

lemma handlers_message_no_valid_token:
  assumes "no_valid_token h (ev_text ev)"
  shows "handlers_message h ev w = (RFalse, w)"
proof (cases "extractEvents h (ev_text ev)")
  case None
  then show ?thesis by (simp add: handlers_message_def)
next
  case (Some toks)
  with assms have "list_all (\<lambda>tok. falsy (item (extractPlusMinusEventData h tok)) \<or>
                          falsy (operation (extractPlusMinusEventData h tok))) toks"
    by (simp add: no_valid_token_def)
  from foldl_no_valid_token [OF this, of ev
      "\<lparr>promises = [], alreadyBeenHandledItems = [], st_world = w\<rparr>"]
  show ?thesis using Some by (simp add: handlers_message_def Let_def)
qed

subsection \<open>Validation and routing\<close>

lemma handleEvent_no_type:
  "ev_type ev = None \<Longrightarrow>
     handleEvent camelCase h ev w = (RFalse, do_call (ConsoleWarn ''Event data missing'') w)"
  by (simp add: handleEvent_def)

lemma handleEvent_subtype:
  "ev_type ev = Some ty \<Longrightarrow> ev_subtype ev = Some sub \<Longrightarrow>
     handleEvent camelCase h ev w =
       (RFalse, do_call (ConsoleWarn (''Unsupported event subtype: '' @ sub)) w)"
  by (simp add: handleEvent_def)

lemma handleEvent_no_text:
  "ev_type ev = Some ty \<Longrightarrow> ev_subtype ev = None \<Longrightarrow>
   ev_text ev = None \<or> (\<exists>t. ev_text ev = Some t \<and> trimIsEmpty t) \<Longrightarrow>
     handleEvent camelCase h ev w = (RFalse, do_call (ConsoleWarn ''Event text missing'') w)"
  by (auto simp: handleEvent_def)

lemma handleEvent_routes:
  assumes "ev_type ev = Some ty" and "ev_subtype ev = None"
    and "ev_text ev = Some t" and "\<not> trimIsEmpty t"
  shows "handleEvent camelCase h ev w =
           (if camelCase ty = ''message'' then handlers_message h ev w
            else if camelCase ty = ''appMention'' then handlers_appMention h ev w
            else (case objectPrototype_call (camelCase ty) ev of
                    Some r \<Rightarrow> (r, w)
                  | None \<Rightarrow> (RFalse, do_call (ConsoleWarn (''Invalid event received: '' @ ty)) w)))"
  using assms by (simp add: handleEvent_def Let_def)

lemma task_outcome_local:
  "same_answers_at a b i \<Longrightarrow>
     task_outcome a i t = task_outcome b i t \<and> task_late_calls a i t = task_late_calls b i t"
  by (cases t) (auto simp: same_answers_at_def split: sum.splits)

subsection \<open>Mention commands\<close>

lemma validCommands_eq:
  "map fst (appCommandHandlers h) =
     [''leaderboard'', ''help'', ''thx'', ''thanks'', ''thankyou'', ''++'', ''--'']"
  by (simp add: appCommandHandlers_def)

lemma command_handler_one_task:
  assumes "map_of (appCommandHandlers h) c = Some handler"
  shows "\<exists>tk. fst (handler ev w) = length (tasks w) \<and>
              tasks (snd (handler ev w)) = tasks w @ [tk] \<and>
              task_channel tk = ev_channel ev"
  using assms
  by (auto simp: appCommandHandlers_def handler_defs Let_def split: if_splits)

section \<open>The claims\<close>

text \<open>
  C1. The claim: for a message event of actor \<open>U\<close> whose text is the single token
  \<open><@U>++\<close>, the dispatch invokes the self-plus handler exactly once and never calls
  \<open>updateScore\<close>. The code does the first and not the second: after \<open>handleSelfPlus\<close> the
  callback goes on to \<open>handlePlusMinus\<close>, which calls \<open>points.updateScore('U', '+')\<close>, and the
  promise of the self-plus reply is overwritten. The run of the dispatch on that event:
\<close>

theorem self_plus_still_updates_score:
  "handleEvent example_camelCase example_helpers (example_event ''message'' ''<@U>++'' ''U'') (world0 0) =
     (RPromiseAll [1],
      \<lparr>calls = [ConsoleLog ''U tried to alter their own score.'',
                SendMessage (SelfMessage ''U'') ''C1'',
                UpdateScore ''U'' ''+''],
       tasks = [SendTask (SelfMessage ''U'') ''C1'', PlusMinusTask ''U'' ''+'' ''C1''],
       randomKey = 0\<rparr>)"
  by (simp add: example_defs dispatch_defs handler_defs)

text \<open>
  C2. The claim: for a message event whose text is the single token \<open>thing=\<close>, the dispatch
  calls \<open>retrieveIndividualScore\<close> and does not call \<open>updateScore\<close>. The code calls both: after
  \<open>handleRetrieveScore\<close> the callback goes on to \<open>handlePlusMinus\<close> with the operation \<open>=\<close>.
  The run of the dispatch on that event:
\<close>

theorem retrieval_still_updates_score:
  "handleEvent example_camelCase example_helpers (example_event ''message'' ''thing='' ''U0'') (world0 0) =
     (RPromiseAll [1],
      \<lparr>calls = [RetrieveIndividualScore ''thing'', UpdateScore ''thing'' ''=''],
       tasks = [RetrieveScoreTask ''thing'' ''C1'', PlusMinusTask ''thing'' ''='' ''C1''],
       randomKey = 0\<rparr>)"
  by (simp add: example_defs dispatch_defs handler_defs)

text \<open>
  C3. The claim: when a text mentions the same target twice, the batch holds one operation for
  that target, the first, and the second is never applied. The code applies both when the
  target is the first of the message: the test \<open>indexOf( item ) > 0\<close> does not see an
  occurrence at index 0 (lemma \<open>indexOf_pos_iff\<close>). The run on \<open>thing++ thing--\<close>:
\<close>

theorem duplicate_of_first_target_applied:
  "handleEvent example_camelCase example_helpers
     (example_event ''message'' ''thing++ thing--'' ''U0'') (world0 0) =
     (RPromiseAll [0, 1],
      \<lparr>calls = [UpdateScore ''thing'' ''+'', UpdateScore ''thing'' ''-''],
       tasks = [PlusMinusTask ''thing'' ''+'' ''C1'', PlusMinusTask ''thing'' ''-'' ''C1''],
       randomKey = 0\<rparr>)"
  by (simp add: example_defs dispatch_defs handler_defs)

text \<open>
  C4, as amended. For every message event that passes the validation and whose text yields no
  valid token, the dispatch creates no promise, calls no collaborator, logs nothing and
  returns \<open>false\<close>: the value it also returns for an event it does not handle.
\<close>

theorem empty_batch_returns_false:
  assumes "ev_type ev = Some ty" and "ev_subtype ev = None"
    and "ev_text ev = Some t" and "\<not> trimIsEmpty t"
    and "camelCase ty = ''message''"
    and "no_valid_token h (ev_text ev)"
  shows "handleEvent camelCase h ev w = (RFalse, w)"
  using assms handlers_message_no_valid_token [of h ev w]
  by (simp add: handleEvent_def)

theorem empty_batch_returns_false_witness:
  "handleEvent example_camelCase example_helpers (example_event ''message'' ''hello'' ''U0'') (world0 0) =
     (RFalse, world0 0)"
proof -
  let ?ev = "example_event ''message'' ''hello'' ''U0''"
  have 1: "ev_type ?ev = Some ''message''" by (simp add: example_event_def)
  have 2: "ev_subtype ?ev = None" by (simp add: example_event_def)
  have 3: "ev_text ?ev = Some ''hello''" by (simp add: example_event_def)
  have 4: "\<not> trimIsEmpty ''hello''" by (simp add: trimIsEmpty_def isWhiteSpace_def)
  have 5: "example_camelCase ''message'' = ''message''" by (simp add: example_camelCase_def)
  have 6: "no_valid_token example_helpers (ev_text ?ev)"
    by (simp add: no_valid_token_def example_event_def example_helpers_def example_texts_def)
  show ?thesis
    by (rule empty_batch_returns_false [where camelCase = example_camelCase, OF 1 2 3 4 5 6])
qed

text \<open>
  C4 as stated fails: the result for a message without tokens is the result for an event
  without a type.
\<close>

theorem empty_batch_same_as_not_handled:
  "fst (handleEvent example_camelCase example_helpers
          (example_event ''message'' ''hello'' ''U0'') (world0 0)) = RFalse \<and>
   fst (handleEvent example_camelCase example_helpers
          \<lparr>ev_type = None, ev_subtype = None, ev_text = Some ''hello'',
           ev_user = ''U0'', ev_channel = ''C1''\<rparr> (world0 0)) = RFalse"
  by (simp add: example_defs dispatch_defs handler_defs)

text \<open>
  C5. The claim: every reply promise a handler creates is a member of the aggregate the
  dispatch returns, so no failure is swallowed. In the code the promise of the self-plus reply
  (and of the retrieval reply) is overwritten before \<open>promises.push\<close>: on the self-plus event
  the aggregate holds promise 1 only, and when the transport rejects the send of promise 0
  the aggregate still fulfils.
\<close>

theorem self_plus_reply_outside_aggregate:
  "(let rw = handleEvent example_camelCase example_helpers
               (example_event ''message'' ''<@U>++'' ''U'') (world0 0);
        a = \<lparr>score_answer = (\<lambda>i. Inr 1),
             send_answer = (\<lambda>i. if i = 0 then Rejected ''channel_not_found'' else Fulfilled)\<rparr>
    in tasks (snd rw) ! 0 = SendTask (SelfMessage ''U'') ''C1'' \<and>
       task_outcome a 0 (tasks (snd rw) ! 0) = Rejected ''channel_not_found'' \<and>
       fst rw = RPromiseAll [1] \<and>
       result_rejected a (snd rw) (fst rw) = False)"
  by (simp add: example_defs dispatch_defs handler_defs promiseAll_fulfilled_def
      promise_fulfilled_def handlePlusMinus_resume_def)

text \<open>
  C6. For a message event that passes the validation and whose text yields one token, with
  the actor as item: when the operation is \<open>-\<close> the dispatch calls
  \<open>points.updateScore(actor, '-')\<close>, creates the promise of \<open>handlePlusMinus\<close> alone and
  returns the aggregate of that promise; the self-plus handler runs once when the operation is
  \<open>+\<close> and not at all for any other operation; and the score update is requested with the
  token's operation.
\<close>

theorem self_minus_is_ordinary:
  assumes "ev_type ev = Some ty" and "ev_subtype ev = None"
    and "ev_text ev = Some t" and "\<not> trimIsEmpty t"
    and "camelCase ty = ''message''"
    and "extractEvents h (ev_text ev) = Some [tok]"
    and "extractPlusMinusEventData h tok = \<lparr>item = Some (ev_user ev), operation = Some opr\<rparr>"
    and "ev_user ev \<noteq> []" and "opr \<noteq> []"
  shows "(opr = ''-'' \<longrightarrow>
            handleEvent camelCase h ev w =
              (RPromiseAll [length (tasks w)],
               w\<lparr>calls := calls w @ [UpdateScore (ev_user ev) ''-''],
                 tasks := tasks w @ [PlusMinusTask (ev_user ev) ''-'' (ev_channel ev)]\<rparr>)) \<and>
         selfPlus_invocations (snd (handleEvent camelCase h ev w)) =
           selfPlus_invocations w + (if opr = ''+'' then 1 else 0) \<and>
         updateScore_calls (snd (handleEvent camelCase h ev w)) =
           updateScore_calls w @ [UpdateScore (ev_user ev) opr]"
proof -
  have route: "handleEvent camelCase h ev w = handlers_message h ev w"
    using assms(1-5) by (simp add: handleEvent_routes)
  note single = handlers_message_single_token [OF assms(6) assms(7) assms(8) assms(9), of w]
  show ?thesis
    unfolding route single
    by (simp add: Let_def handler_defs selfPlus_invocations_def updateScore_calls_def
        isSelfPlusLog_def isUpdateScore_def)
qed

theorem self_minus_is_ordinary_witness:
  "handleEvent example_camelCase example_helpers (example_event ''message'' ''<@U>--'' ''U'') (world0 0) =
     (RPromiseAll [0],
      \<lparr>calls = [UpdateScore ''U'' ''-''], tasks = [PlusMinusTask ''U'' ''-'' ''C1''],
       randomKey = 0\<rparr>) \<and>
   selfPlus_invocations
     (snd (handleEvent example_camelCase example_helpers
             (example_event ''message'' ''<@U>--'' ''U'') (world0 0))) = 0"
proof -
  let ?ev = "example_event ''message'' ''<@U>--'' ''U''"
  have 1: "ev_type ?ev = Some ''message''" by (simp add: example_event_def)
  have 2: "ev_subtype ?ev = None" by (simp add: example_event_def)
  have 3: "ev_text ?ev = Some ''<@U>--''" by (simp add: example_event_def)
  have 4: "\<not> trimIsEmpty ''<@U>--''" by (simp add: trimIsEmpty_def isWhiteSpace_def)
  have 5: "example_camelCase ''message'' = ''message''" by (simp add: example_camelCase_def)
  have 6: "extractEvents example_helpers (ev_text ?ev) = Some [''<@U>--'']"
    by (simp add: example_event_def example_helpers_def example_texts_def)
  have 7: "extractPlusMinusEventData example_helpers ''<@U>--'' =
             \<lparr>item = Some (ev_user ?ev), operation = Some ''-''\<rparr>"
    by (simp add: example_event_def example_helpers_def example_tokens_def)
  have 8: "ev_user ?ev \<noteq> []" by (simp add: example_event_def)
  have 9: "''-'' \<noteq> []" by simp
  from self_minus_is_ordinary [where camelCase = example_camelCase and w = "world0 0",
      OF 1 2 3 4 5 6 7 8 9]
  show ?thesis
    by (simp add: example_event_def world0_def selfPlus_invocations_def isSelfPlusLog_def)
qed

text \<open>
  C7. The claim: an event without type, with a subtype, without text or with blank text, or
  of an unrecognised type makes \<open>handleEvent\<close> log a diagnostic and return \<open>false\<close> without
  invoking anything. The first three hold (lemmas \<open>handleEvent_no_type\<close>,
  \<open>handleEvent_subtype\<close>, \<open>handleEvent_no_text\<close>). The last fails for the names of the
  functions that \<open>handlers\<close> inherits from \<open>Object.prototype\<close>: for the type
  \<open>constructor\<close>, \<open>handlers[ eventName ] instanceof Function\<close> holds, \<open>Object\<close> is called
  on the event, the event itself is returned and nothing is logged.
\<close>

theorem constructor_type_returns_event:
  "handleEvent example_camelCase example_helpers
     (example_event ''constructor'' ''hello'' ''U0'') (world0 0) =
     (RObject (example_event ''constructor'' ''hello'' ''U0''), world0 0)"
  by (simp add: example_defs dispatch_defs)

text \<open>
  C8. For every mention event that passes the validation, with \<open>extractCommand\<close> returning
  nothing or a command of the vocabulary \<open>leaderboard\<close>, \<open>help\<close>, \<open>thx\<close>, \<open>thanks\<close>,
  \<open>thankyou\<close>, \<open>++\<close>, \<open>--\<close>: the dispatch creates exactly one promise, a reply to the
  channel of the event, and returns it; without a command the reply is the default message,
  with a command it is the reply of the handler that \<open>appCommandHandlers\<close> holds for it.
\<close>

theorem mention_one_reply:
  assumes "ev_type ev = Some ty" and "ev_subtype ev = None"
    and "ev_text ev = Some t" and "\<not> trimIsEmpty t"
    and "camelCase ty = ''appMention''"
    and "extractCommand h (ev_text ev)
           [''leaderboard'', ''help'', ''thx'', ''thanks'', ''thankyou'', ''++'', ''--''] = cmd"
    and "cmd = None \<or>
         (\<exists>c. cmd = Some c \<and>
              c \<in> {''leaderboard'', ''help'', ''thx'', ''thanks'', ''thankyou'', ''++'', ''--''})"
  shows "(\<exists>tk. fst (handleEvent camelCase h ev w) = RPromise (length (tasks w)) \<and>
               tasks (snd (handleEvent camelCase h ev w)) = tasks w @ [tk] \<and>
               task_channel tk = ev_channel ev) \<and>
         (cmd = None \<longrightarrow>
            handleEvent camelCase h ev w =
              promised (slack_sendMessage (Text defaultMessage) (ev_channel ev) w)) \<and>
         (\<forall>c. cmd = Some c \<longrightarrow>
            (\<exists>handler. map_of (appCommandHandlers h) c = Some handler \<and>
                       handleEvent camelCase h ev w = promised (handler ev w)))"
proof -
  have route: "handleEvent camelCase h ev w = handlers_appMention h ev w"
    using assms(1-5) by (simp add: handleEvent_routes)
  show ?thesis
  proof (cases cmd)
    case None
    with assms(6) have run: "handlers_appMention h ev w =
        promised (slack_sendMessage (Text defaultMessage) (ev_channel ev) w)"
      by (simp add: handlers_appMention_def validCommands_eq falsy_def)
    show ?thesis
      unfolding route run using None
      by (simp add: promised_def slack_sendMessage_def new_task_def do_call_def)
  next
    case (Some c)
    with assms(7) have voc:
      "c \<in> {''leaderboard'', ''help'', ''thx'', ''thanks'', ''thankyou'', ''++'', ''--''}"
      by simp
    then obtain handler where look: "map_of (appCommandHandlers h) c = Some handler"
      by (auto simp: appCommandHandlers_def)
    from voc have "c \<noteq> []" by auto
    with Some assms(6) look have run: "handlers_appMention h ev w = promised (handler ev w)"
      by (simp add: handlers_appMention_def validCommands_eq falsy_def appCommandHandlers_call_def)
    from command_handler_one_task [OF look, of ev w]
    show ?thesis
      unfolding route run using Some look by (simp add: promised_def)
  qed
qed

theorem mention_one_reply_witness:
  "handleEvent example_camelCase example_helpers
     (example_event ''app_mention'' ''<@BOT> thanks'' ''U0'') (world0 0) =
     (RPromise 0,
      \<lparr>calls = [SendMessage (Text ''<@U0> Don't mention it!'') ''C1''],
       tasks = [SendTask (Text ''<@U0> Don't mention it!'') ''C1''],
       randomKey = 0\<rparr>)"
proof -
  let ?ev = "example_event ''app_mention'' ''<@BOT> thanks'' ''U0''"
  have 1: "ev_type ?ev = Some ''app_mention''" by (simp add: example_event_def)
  have 2: "ev_subtype ?ev = None" by (simp add: example_event_def)
  have 3: "ev_text ?ev = Some ''<@BOT> thanks''" by (simp add: example_event_def)
  have 4: "\<not> trimIsEmpty ''<@BOT> thanks''" by (simp add: trimIsEmpty_def isWhiteSpace_def)
  have 5: "example_camelCase ''app_mention'' = ''appMention''" by (simp add: example_camelCase_def)
  have 6: "extractCommand example_helpers (ev_text ?ev)
             [''leaderboard'', ''help'', ''thx'', ''thanks'', ''thankyou'', ''++'', ''--''] =
           Some ''thanks''"
    by (simp add: example_event_def example_helpers_def example_commands_def)
  have 7: "Some ''thanks'' = None \<or>
           (\<exists>c. Some ''thanks'' = Some c \<and>
                c \<in> {''leaderboard'', ''help'', ''thx'', ''thanks'', ''thankyou'', ''++'', ''--''})"
    by simp
  from mention_one_reply [where camelCase = example_camelCase and w = "world0 0",
      OF 1 2 3 4 5 6 7]
  have "\<exists>handler. map_of (appCommandHandlers example_helpers) ''thanks'' = Some handler \<and>
          handleEvent example_camelCase example_helpers ?ev (world0 0) =
            promised (handler ?ev (world0 0))"
    by simp
  then have "handleEvent example_camelCase example_helpers ?ev (world0 0) =
               promised (sayThankyou ?ev (world0 0))"
    by (auto simp: appCommandHandlers_def)
  then show ?thesis
    by (simp add: promised_def sayThankyou_def slack_sendMessage_def new_task_def do_call_def
        thankyouMessages_def example_event_def world0_def Let_def)
qed

text \<open>
  C9. For the event \<open>{type: "message", text: "<@U1>++ <@U2>--", user: "U0", channel: "C1"}\<close>,
  with helpers that find the two tokens \<open>(U1, +)\<close> and \<open>(U2, -)\<close> in the text: the dispatch
  creates exactly two promises, calls \<open>updateScore('U1', '+')\<close> and then
  \<open>updateScore('U2', '-')\<close>, and returns the aggregate of the two. How each of the two settles,
  and what it sends, depends on the answers to its own calls only.
\<close>

theorem two_operations_end_to_end:
  assumes "camelCase ''message'' = ''message''"
    and "extractEvents h (Some ''<@U1>++ <@U2>--'') = Some [t1, t2]"
    and "extractPlusMinusEventData h t1 = \<lparr>item = Some ''U1'', operation = Some ''+''\<rparr>"
    and "extractPlusMinusEventData h t2 = \<lparr>item = Some ''U2'', operation = Some ''-''\<rparr>"
  shows "handleEvent camelCase h
           \<lparr>ev_type = Some ''message'', ev_subtype = None, ev_text = Some ''<@U1>++ <@U2>--'',
            ev_user = ''U0'', ev_channel = ''C1''\<rparr> w =
           (RPromiseAll [length (tasks w), Suc (length (tasks w))],
            w\<lparr>calls := calls w @ [UpdateScore ''U1'' ''+'', UpdateScore ''U2'' ''-''],
              tasks := tasks w @ [PlusMinusTask ''U1'' ''+'' ''C1'',
                                  PlusMinusTask ''U2'' ''-'' ''C1'']\<rparr>) \<and>
         (\<forall>a b. same_answers_at a b (length (tasks w)) \<longrightarrow>
            task_outcome a (length (tasks w)) (PlusMinusTask ''U1'' ''+'' ''C1'') =
            task_outcome b (length (tasks w)) (PlusMinusTask ''U1'' ''+'' ''C1'') \<and>
            task_late_calls a (length (tasks w)) (PlusMinusTask ''U1'' ''+'' ''C1'') =
            task_late_calls b (length (tasks w)) (PlusMinusTask ''U1'' ''+'' ''C1'')) \<and>
         (\<forall>a b. same_answers_at a b (Suc (length (tasks w))) \<longrightarrow>
            task_outcome a (Suc (length (tasks w))) (PlusMinusTask ''U2'' ''-'' ''C1'') =
            task_outcome b (Suc (length (tasks w))) (PlusMinusTask ''U2'' ''-'' ''C1'') \<and>
            task_late_calls a (Suc (length (tasks w))) (PlusMinusTask ''U2'' ''-'' ''C1'') =
            task_late_calls b (Suc (length (tasks w))) (PlusMinusTask ''U2'' ''-'' ''C1''))"
proof -
  let ?ev = "\<lparr>ev_type = Some ''message'', ev_subtype = None,
              ev_text = Some ''<@U1>++ <@U2>--'', ev_user = ''U0'', ev_channel = ''C1''\<rparr>"
  let ?st0 = "\<lparr>promises = [], alreadyBeenHandledItems = [], st_world = w\<rparr>"
  have route: "handleEvent camelCase h ?ev w = handlers_message h ?ev w"
    using assms(1) by (simp add: handleEvent_def trimIsEmpty_def isWhiteSpace_def)
  have k1: "\<not> 0 < indexOf (alreadyBeenHandledItems ?st0) (Some ''U1'')" by simp
  have s1: "message_eventItem h ?ev t1 ?st0 =
              \<lparr>promises = [length (tasks w)], alreadyBeenHandledItems = [Some ''U1''],
               st_world = w\<lparr>calls := calls w @ [UpdateScore ''U1'' ''+''],
                            tasks := tasks w @ [PlusMinusTask ''U1'' ''+'' ''C1'']\<rparr>\<rparr>"
    using message_eventItem_kept [OF assms(3) _ _ k1, of ?ev]
    by (simp add: Let_def handler_defs)
  let ?st1 = "\<lparr>promises = [length (tasks w)], alreadyBeenHandledItems = [Some ''U1''],
               st_world = w\<lparr>calls := calls w @ [UpdateScore ''U1'' ''+''],
                            tasks := tasks w @ [PlusMinusTask ''U1'' ''+'' ''C1'']\<rparr>\<rparr>"
  have k2: "\<not> 0 < indexOf (alreadyBeenHandledItems ?st1) (Some ''U2'')" by simp
  have s2: "message_eventItem h ?ev t2 ?st1 =
              \<lparr>promises = [length (tasks w), Suc (length (tasks w))],
               alreadyBeenHandledItems = [Some ''U1'', Some ''U2''],
               st_world = w\<lparr>calls := calls w @ [UpdateScore ''U1'' ''+'', UpdateScore ''U2'' ''-''],
                            tasks := tasks w @ [PlusMinusTask ''U1'' ''+'' ''C1'',
                                                PlusMinusTask ''U2'' ''-'' ''C1'']\<rparr>\<rparr>"
    using message_eventItem_kept [OF assms(4) _ _ k2, of ?ev]
    by (simp add: Let_def handler_defs)
  have run: "handlers_message h ?ev w =
               (RPromiseAll [length (tasks w), Suc (length (tasks w))],
                w\<lparr>calls := calls w @ [UpdateScore ''U1'' ''+'', UpdateScore ''U2'' ''-''],
                  tasks := tasks w @ [PlusMinusTask ''U1'' ''+'' ''C1'',
                                      PlusMinusTask ''U2'' ''-'' ''C1'']\<rparr>)"
    using assms(2) by (simp add: handlers_message_def Let_def s1 s2)
  show ?thesis
    unfolding route run using task_outcome_local by blast
qed

theorem two_operations_end_to_end_witness:
  "handleEvent example_camelCase example_helpers
     \<lparr>ev_type = Some ''message'', ev_subtype = None, ev_text = Some ''<@U1>++ <@U2>--'',
      ev_user = ''U0'', ev_channel = ''C1''\<rparr> (world0 0) =
     (RPromiseAll [0, 1],
      \<lparr>calls = [UpdateScore ''U1'' ''+'', UpdateScore ''U2'' ''-''],
       tasks = [PlusMinusTask ''U1'' ''+'' ''C1'', PlusMinusTask ''U2'' ''-'' ''C1''],
       randomKey = 0\<rparr>)"
proof -
  have 1: "example_camelCase ''message'' = ''message''" by (simp add: example_camelCase_def)
  have 2: "extractEvents example_helpers (Some ''<@U1>++ <@U2>--'') = Some [''<@U1>++'', ''<@U2>--'']"
    by (simp add: example_helpers_def example_texts_def)
  have 3: "extractPlusMinusEventData example_helpers ''<@U1>++'' =
             \<lparr>item = Some ''U1'', operation = Some ''+''\<rparr>"
    by (simp add: example_helpers_def example_tokens_def)
  have 4: "extractPlusMinusEventData example_helpers ''<@U2>--'' =
             \<lparr>item = Some ''U2'', operation = Some ''-''\<rparr>"
    by (simp add: example_helpers_def example_tokens_def)
  from two_operations_end_to_end [where camelCase = example_camelCase and w = "world0 0",
      OF 1 2 3 4]
  show ?thesis by (simp add: world0_def)
qed

text \<open>
  C10. The claim: the routing compares the camel-cased type name, events whose name becomes
  \<open>message\<close> or \<open>appMention\<close> reach the matching handler, and every other type yields
  \<open>false\<close>. The routing is as claimed (lemma \<open>handleEvent_routes\<close>); the last part fails
  for a type whose camel case names an inherited function: \<open>to_string\<close> becomes
  \<open>toString\<close>, and the dispatch returns the string \<open>[object Object]\<close>.
\<close>

theorem to_string_type_returns_string:
  "handleEvent example_camelCase example_helpers
     (example_event ''to_string'' ''hello'' ''U0'') (world0 0) =
     (RString ''[object Object]'', world0 0)"
  by (simp add: example_defs dispatch_defs)

end
